theory Spec2Isabelle
  imports Complex_Main
begin

section \<open>Time-step schemes and the baroclinic wave test of the Tempest model\<close>

text \<open>
  The development embeds three source files of the Tempest atmospheric model:
  \<^item> \<^verbatim>\<open>src/atm/TimestepSchemeARS343.h\<close>, the declaration of the hand-coded ARS343 scheme;
  \<^item> \<^verbatim>\<open>TimestepSchemeARKode.h\<close>, the declaration of the adapter to the ARKode library;
  \<^item> \<^verbatim>\<open>BaroclinicWaveTest.cpp\<close>, the Jablonowski and Williamson test case.

  A C++ \<^verbatim>\<open>double\<close> is idealised as a \<^typ>\<open>real\<close>: no rounding, no infinities, no NaN.
  The library functions are their HOL namesakes: \<^verbatim>\<open>pow(x, y)\<close> is \<open>x powr y\<close>,
  \<^verbatim>\<open>log\<close> is \<open>ln\<close>, \<^verbatim>\<open>acos\<close> is \<open>arccos\<close>, \<^verbatim>\<open>fabs\<close> is the absolute value and
  \<^verbatim>\<open>M_PI\<close> is \<open>pi\<close>. The two agree wherever the C++ value is finite and rounding is
  ignored; where the C++ is not finite (a division by zero, a negative base of
  \<^verbatim>\<open>pow\<close>) the HOL term denotes some real number instead. The general theorems
  below are about the control flow and the writes of the code: their proofs use no law of
  arithmetic on the values that pass through, so that they hold for whatever the numeric
  operations return. Only the examples compute, with the real numbers.
  A C++ \<^verbatim>\<open>int\<close> is an \<^typ>\<open>int\<close>; the only arithmetic on it is a counter from 0 to 25.
\<close>

subsection \<open>TimestepSchemeARS343\<close>

text \<open>
  The data members of the class: eleven \<^verbatim>\<open>DataVector<double>\<close> buffers. The static
  constants \<^verbatim>\<open>m_dgamma\<close>, \<^verbatim>\<open>m_ddelta\<close>, \<^verbatim>\<open>m_dTimeCf\<close>,
  \<^verbatim>\<open>m_dExpCf\<close> and \<^verbatim>\<open>m_dImpCf\<close> belong to the class, not to an object.
\<close>

record TimestepSchemeARS343 =
  m_dK0Combo :: "real list"
  m_du1fCombo :: "real list"
  m_dK1Combo :: "real list"
  m_dKh1Combo :: "real list"
  m_du2fCombo :: "real list"
  m_dK2Combo :: "real list"
  m_dKh2Combo :: "real list"
  m_du3fCombo :: "real list"
  m_dK3Combo :: "real list"
  m_dKh3Combo :: "real list"
  m_du4fCombo :: "real list"

text \<open>\<^verbatim>\<open>virtual int GetComponentDataInstances() const { return 10; }\<close>\<close>

definition ARS343_GetComponentDataInstances :: "TimestepSchemeARS343 \<Rightarrow> int" where
  "ARS343_GetComponentDataInstances this = 10"

text \<open>\<^verbatim>\<open>virtual int GetTracerDataInstances() const { return 10; }\<close>\<close>

definition ARS343_GetTracerDataInstances :: "TimestepSchemeARS343 \<Rightarrow> int" where
  "ARS343_GetTracerDataInstances this = 10"

subsection \<open>BaroclinicWaveJWTest\<close>

text \<open>
  The class \<^verbatim>\<open>PhysicalConstants\<close> is declared in \<^verbatim>\<open>PhysicalConstants.h\<close>, which is
  missing from the sources. The test case reads five constants from it and calls
  \<^verbatim>\<open>RhoThetaFromPressure\<close>; they are the fields of the record, so every theorem holds
  for whatever the constants are and whatever that function computes.
\<close>

record PhysicalConstants =
  GetEarthRadius :: real
  GetOmega :: real
  GetG :: real
  GetR :: real
  GetP0 :: real
  RhoThetaFromPressure :: "real \<Rightarrow> real"

text \<open>
  \<^verbatim>\<open>enum PerturbationType\<close>: \<^verbatim>\<open>PerturbationType_None\<close> is a second name of the value 0.
\<close>

datatype PerturbationType =
  PerturbationType_Default
  | PerturbationType_Exp
  | PerturbationType_StreamFn

abbreviation PerturbationType_None :: PerturbationType where
  "PerturbationType_None \<equiv> PerturbationType_Default"

text \<open>The data members of \<^verbatim>\<open>class BaroclinicWaveJWTest\<close>, in the order of their declaration.\<close>

record BaroclinicWaveJWTest =
  ParamEta0 :: real
  ParamTropopauseEta :: real
  ParamT0 :: real
  ParamDeltaT :: real
  ParamLapseRate :: real
  ParamU0 :: real
  ParamUp :: real
  ParamPertLon :: real
  ParamPertLat :: real
  ParamPertR :: real
  m_dAlpha :: real
  m_fTracerOn :: bool
  m_dZtop :: real
  m_ePerturbationType :: PerturbationType

text \<open>
  The constructor: the ten \<^verbatim>\<open>Param\<close> members get their fixed values
  (\<^verbatim>\<open>4.8e5\<close> is 480000), the other four the arguments.
\<close>

definition new_BaroclinicWaveJWTest ::
  "real \<Rightarrow> bool \<Rightarrow> real \<Rightarrow> PerturbationType \<Rightarrow> BaroclinicWaveJWTest" where
  "new_BaroclinicWaveJWTest dAlpha fTracerOn dZtop ePerturbationType =
     \<lparr> ParamEta0 = 0.252,
       ParamTropopauseEta = 0.2,
       ParamT0 = 288.0,
       ParamDeltaT = 480000,
       ParamLapseRate = 0.005,
       ParamU0 = 35.0,
       ParamUp = 1.0,
       ParamPertLon = pi / 9.0,
       ParamPertLat = 2.0 * pi / 9.0,
       ParamPertR = 0.1,
       m_dAlpha = dAlpha,
       m_fTracerOn = fTracerOn,
       m_dZtop = dZtop,
       m_ePerturbationType = ePerturbationType \<rparr>"

text \<open>\<^verbatim>\<open>EvaluateTopography\<close> (lines 190 to 225): the surface height at a point.\<close>

definition EvaluateTopography ::
  "BaroclinicWaveJWTest \<Rightarrow> PhysicalConstants \<Rightarrow> real \<Rightarrow> real \<Rightarrow> real" where
  "EvaluateTopography this phys dLon dLat =
     (let dAuxEta = 0.5 * pi * (1.0 - ParamEta0 this);
          dSinLat = sin dLat;
          dSinLat2 = dSinLat * dSinLat;
          dSinLat3 = dSinLat * dSinLat2;
          dSinLat4 = dSinLat * dSinLat3;
          dSinLat5 = dSinLat * dSinLat4;
          dSinLat6 = dSinLat * dSinLat5;
          dCosLat = cos dLat;
          dCosLat2 = dCosLat * dCosLat;
          dCosLat3 = dCosLat * dCosLat2;
          dRefProfile1 =
            ParamU0 this * cos dAuxEta powr 1.5
              * (- 2.0 * dSinLat6 * (dCosLat2 + 1.0 / 3.0) + 10.0 / 63.0);
          dRefProfile2 =
            GetEarthRadius phys * GetOmega phys
              * (8.0 / 5.0 * dCosLat3 * (dSinLat2 + 2.0 / 3.0) - 0.25 * pi);
          dSurfGeopotential =
            ParamU0 this * cos dAuxEta powr 1.5 * (dRefProfile1 + dRefProfile2)
      in dSurfGeopotential / GetG phys)"

text \<open>
  \<^verbatim>\<open>CalculateGeopotentialTemperature\<close> (lines 230 to 310). The two reference parameters
  are written only, so they are the result: the pair of the geopotential and the
  temperature. A variable that the code assigns twice is bound twice.
\<close>

definition CalculateGeopotentialTemperature ::
  "BaroclinicWaveJWTest \<Rightarrow> PhysicalConstants \<Rightarrow> real \<Rightarrow> real \<Rightarrow> real \<Rightarrow> real \<times> real" where
  "CalculateGeopotentialTemperature this phys dEta dLon dLat =
     (let dAuxEta = 0.5 * pi * (dEta - ParamEta0 this);
          dAvgTemperature =
            ParamT0 this * dEta powr (GetR phys * ParamLapseRate this / GetG phys);
          dAvgTemperature =
            (if dEta < ParamTropopauseEta this
             then dAvgTemperature
               + ParamDeltaT this * (ParamTropopauseEta this - dEta) powr 5.0
             else dAvgTemperature);
          dSinLat = sin dLat;
          dSinLat2 = dSinLat * dSinLat;
          dSinLat3 = dSinLat * dSinLat2;
          dSinLat4 = dSinLat * dSinLat3;
          dSinLat5 = dSinLat * dSinLat4;
          dSinLat6 = dSinLat * dSinLat5;
          dCosLat = cos dLat;
          dCosLat2 = dCosLat * dCosLat;
          dCosLat3 = dCosLat * dCosLat2;
          dRefProfile1 =
            ParamU0 this * cos dAuxEta powr 1.5
              * (- 2.0 * dSinLat6 * (dCosLat2 + 1.0 / 3.0) + 10.0 / 63.0);
          dRefProfile2 =
            GetEarthRadius phys * GetOmega phys
              * (8.0 / 5.0 * dCosLat3 * (dSinLat2 + 2.0 / 3.0) - 0.25 * pi);
          dTemperature = 2.0 * dRefProfile1 + dRefProfile2;
          dTemperature =
            dAvgTemperature
            + 0.75 * dEta * pi * ParamU0 this / GetR phys
              * sin dAuxEta * sqrt (cos dAuxEta) * dTemperature;
          dAvgGeopotential =
            ParamT0 this * GetG phys / ParamLapseRate this
              * (1.0 - dEta powr (GetR phys * ParamLapseRate this / GetG phys));
          dAvgGeopotential =
            (if dEta < ParamTropopauseEta this
             then
               (let dEta2 = dEta * dEta;
                    dEta3 = dEta * dEta2;
                    dEta4 = dEta * dEta3;
                    dEta5 = dEta * dEta4;
                    dTropoEta = ParamTropopauseEta this;
                    dTropoEta2 = dTropoEta * dTropoEta;
                    dTropoEta3 = dTropoEta * dTropoEta2;
                    dTropoEta4 = dTropoEta * dTropoEta3;
                    dTropoEta5 = dTropoEta * dTropoEta4
                in dAvgGeopotential - GetR phys * ParamDeltaT this * (
                     (ln (dEta / ParamTropopauseEta this) + 137.0 / 60.0) * dTropoEta5
                     - 5.0 * dTropoEta4 * dEta
                     + 5.0 * dTropoEta3 * dEta2
                     - (10.0 / 3.0) * dTropoEta2 * dEta3
                     + 5.0 / 4.0 * dTropoEta * dEta4
                     - 1.0 / 5.0 * dEta5))
             else dAvgGeopotential);
          dGeopotential =
            dAvgGeopotential
            + ParamU0 this * cos dAuxEta powr 1.5 * (dRefProfile1 + dRefProfile2)
      in (dGeopotential, dTemperature))"

text \<open>\<^verbatim>\<open>_EXCEPTIONT(msg)\<close> throws an exception that carries the text \<^verbatim>\<open>msg\<close>.\<close>

datatype exception = Exception string

text \<open>The three local constants of \<^verbatim>\<open>EtaFromRLL\<close>: 25, \<^verbatim>\<open>1.0e-7\<close> and \<^verbatim>\<open>1.0e-13\<close>.\<close>

definition MaxIterations :: int where
  "MaxIterations = 25"

definition InitialEta :: real where
  "InitialEta = 1 / 10 ^ 7"

definition Convergence :: real where
  "Convergence = 1 / 10 ^ 13"

text \<open>
  The body of the loop up to the test for convergence (lines 340 to 346): from the current
  \<^verbatim>\<open>dEta\<close> to \<^verbatim>\<open>dNewEta\<close> and the two reference parameters as the call in line 340
  leaves them.
\<close>

definition EtaFromRLL_body ::
  "BaroclinicWaveJWTest \<Rightarrow> PhysicalConstants \<Rightarrow> real \<Rightarrow> real \<Rightarrow> real \<Rightarrow> real
     \<Rightarrow> real \<times> real \<times> real" where
  "EtaFromRLL_body this phys dZ dLon dLat dEta =
     (case CalculateGeopotentialTemperature this phys dEta dLon dLat of
        (dGeopotential, dTemperature) \<Rightarrow>
          (let dF = - GetG phys * dZ + dGeopotential;
               dDiffF = - GetR phys / dEta * dTemperature;
               dNewEta = dEta - dF / dDiffF
           in (dNewEta, dGeopotential, dTemperature)))"

text \<open>
  How the \<^verbatim>\<open>for\<close> loop is left: by the \<^verbatim>\<open>return dNewEta\<close> of line 349, or at its
  end, with the counter, \<^verbatim>\<open>dEta\<close> and the two reference parameters as they are then.
\<close>

datatype loop_exit =
  Loop_return real real real
  | Loop_end int real real real

text \<open>
  The loop of lines 338 to 353, from the counter \<^verbatim>\<open>i\<close> on. It terminates: the
  distance of the counter to \<^verbatim>\<open>MaxIterations\<close> decreases.
\<close>

function EtaFromRLL_loop ::
  "BaroclinicWaveJWTest \<Rightarrow> PhysicalConstants \<Rightarrow> real \<Rightarrow> real \<Rightarrow> real
     \<Rightarrow> int \<Rightarrow> real \<Rightarrow> real \<Rightarrow> real \<Rightarrow> loop_exit" where
  "EtaFromRLL_loop this phys dZ dLon dLat i dEta dGeopotential dTemperature =
     (if i < MaxIterations then
        (case EtaFromRLL_body this phys dZ dLon dLat dEta of
           (dNewEta, dGeopotential', dTemperature') \<Rightarrow>
             if \<bar>dEta - dNewEta\<bar> < Convergence
             then Loop_return dNewEta dGeopotential' dTemperature'
             else EtaFromRLL_loop this phys dZ dLon dLat (i + 1) dNewEta
                    dGeopotential' dTemperature')
      else Loop_end i dEta dGeopotential dTemperature)"
  by pat_completeness auto
termination
  by (relation "measure (\<lambda>(this, phys, dZ, dLon, dLat, i, dEta, g, t). nat (MaxIterations - i))")
    auto

text \<open>
  \<^verbatim>\<open>EtaFromRLL\<close> (lines 317 to 365). The result is the exception thrown, or the value
  returned with the two reference parameters. The two checks after the loop (lines 356 to 362)
  and the last \<^verbatim>\<open>return dEta\<close> are kept as they are written.
\<close>

definition EtaFromRLL ::
  "BaroclinicWaveJWTest \<Rightarrow> PhysicalConstants \<Rightarrow> real \<Rightarrow> real \<Rightarrow> real \<Rightarrow> real \<Rightarrow> real
     \<Rightarrow> exception + real \<times> real \<times> real" where
  "EtaFromRLL this phys dZ dLon dLat dGeopotential dTemperature =
     (case EtaFromRLL_loop this phys dZ dLon dLat 0 InitialEta dGeopotential dTemperature of
        Loop_return dNewEta dGeopotential' dTemperature' \<Rightarrow>
          Inr (dNewEta, dGeopotential', dTemperature')
      | Loop_end i dEta dGeopotential' dTemperature' \<Rightarrow>
          if i = MaxIterations
          then Inl (Exception ''Maximum number of iterations exceeded.'')
          else if dEta > 1.0 \<or> dEta < 0.0
          then Inl (Exception ''Invalid Eta value'')
          else Inr (dEta, dGeopotential', dTemperature'))"

text \<open>
  \<^verbatim>\<open>EvaluateReferenceState\<close> (lines 371 to 403). A \<^verbatim>\<open>double *\<close> points to cells that
  the code addresses by their offset and whose number it never asks for: the array is the
  map from the offset to the content of the cell. The locals \<^verbatim>\<open>dGeopotential\<close> and
  \<^verbatim>\<open>dTemperature\<close> are passed uninitialised, hence as values nothing is known of;
  \<^verbatim>\<open>EtaFromRLL\<close> overwrites both before it reads them (lemma
  \<open>EtaFromRLL_ignores_incoming\<close>). An exception of \<^verbatim>\<open>EtaFromRLL\<close> passes through.
\<close>

definition EvaluateReferenceState ::
  "BaroclinicWaveJWTest \<Rightarrow> PhysicalConstants \<Rightarrow> real \<Rightarrow> real \<Rightarrow> real \<Rightarrow> (nat \<Rightarrow> real)
     \<Rightarrow> exception + (nat \<Rightarrow> real)" where
  "EvaluateReferenceState this phys dZ dLon dLat dState =
     (case EtaFromRLL this phys dZ dLon dLat undefined undefined of
        Inl e \<Rightarrow> Inl e
      | Inr (dEta, dGeopotential, dTemperature) \<Rightarrow>
          (let dUlon =
                 ParamU0 this * cos (0.5 * pi * (dEta - ParamEta0 this)) powr 1.5
                   * sin (2.0 * dLat) * sin (2.0 * dLat);
               dState = dState(0 := dUlon);
               dPressure = GetP0 phys * dEta;
               dRho = dPressure / (GetR phys * dTemperature);
               dRhoTheta = RhoThetaFromPressure phys dPressure;
               dState = dState(2 := dRhoTheta / dRho);
               dState = dState(4 := dRho)
           in Inr dState))"

text \<open>
  \<^verbatim>\<open>EvaluatePointwiseState\<close> (lines 408 to 433). The \<^verbatim>\<open>Time\<close> argument is of a class
  declared elsewhere and is not used; its type is left open. The result is the pair of the
  two arrays the pointers address, which are taken not to overlap.
\<close>

definition EvaluatePointwiseState ::
  "BaroclinicWaveJWTest \<Rightarrow> PhysicalConstants \<Rightarrow> 'time \<Rightarrow> real \<Rightarrow> real \<Rightarrow> real
     \<Rightarrow> (nat \<Rightarrow> real) \<Rightarrow> (nat \<Rightarrow> real)
     \<Rightarrow> exception + (nat \<Rightarrow> real) \<times> (nat \<Rightarrow> real)" where
  "EvaluatePointwiseState this phys time dZ dLon dLat dState dTracer =
     (case EvaluateReferenceState this phys dZ dLon dLat dState of
        Inl e \<Rightarrow> Inl e
      | Inr dState \<Rightarrow>
          if m_ePerturbationType this = PerturbationType_Exp then
            (let dGreatCircleR =
                   arccos (sin (ParamPertLat this) * sin dLat
                     + cos (ParamPertLat this) * cos dLat * cos (dLon - ParamPertLon this));
                 dGreatCircleR = dGreatCircleR / ParamPertR this
             in if dGreatCircleR < 1.0
                then Inr (dState(0 := dState 0
                            + ParamUp this * exp (- dGreatCircleR * dGreatCircleR)),
                          dTracer)
                else Inr (dState, dTracer))
          else Inr (dState, dTracer))"


subsection \<open>The Newton iterates, and an input on which the iteration converges\<close>

text \<open>
  The iterates of \<^verbatim>\<open>EtaFromRLL\<close>: the initial value, then \<^verbatim>\<open>dNewEta\<close> of the loop
  body at the iterate before.
\<close>

definition EtaFromRLL_iterate ::
  "BaroclinicWaveJWTest \<Rightarrow> PhysicalConstants \<Rightarrow> real \<Rightarrow> real \<Rightarrow> real \<Rightarrow> nat \<Rightarrow> real" where
  "EtaFromRLL_iterate this phys dZ dLon dLat k =
     ((\<lambda>dEta. fst (EtaFromRLL_body this phys dZ dLon dLat dEta)) ^^ k) InitialEta"

text \<open>
  Physical constants of the Earth, and the test case as the driver constructs it by
  default but with the \<^verbatim>\<open>Exp\<close> perturbation.
\<close>

definition earth :: PhysicalConstants where
  "earth =
     \<lparr> GetEarthRadius = 6371220,
       GetOmega = 7292 / 10 ^ 8,
       GetG = 9.80616,
       GetR = 287.0,
       GetP0 = 100000,
       RhoThetaFromPressure = (\<lambda>dPressure. 100000 / 287.0 * (dPressure / 100000) powr (5 / 7)) \<rparr>"

definition jw_test :: BaroclinicWaveJWTest where
  "jw_test = new_BaroclinicWaveJWTest 0 False 10000 PerturbationType_Exp"

text \<open>
  The height at which the geopotential is the one of \<^verbatim>\<open>InitialEta\<close>: the first Newton
  step does not move there, so that the loop returns in its first iteration.
\<close>

definition level_of_InitialEta :: "BaroclinicWaveJWTest \<Rightarrow> PhysicalConstants \<Rightarrow> real \<Rightarrow> real \<Rightarrow> real" where
  "level_of_InitialEta this phys dLon dLat =
     fst (CalculateGeopotentialTemperature this phys InitialEta dLon dLat) / GetG phys"

subsection \<open>TimestepSchemeARKode\<close>

text \<open>
  The data members that \<^verbatim>\<open>TimestepSchemeARKode.h\<close> declares. The \<^verbatim>\<open>N_Vector\<close>
  \<^verbatim>\<open>m_Y\<close> is the list of the values it gives access to.
\<close>

record TimestepSchemeARKode =
  m_Y :: "real list"
  m_iNVectors :: int
  m_iARKodeButcherTable :: int
  m_iSetButcherTable :: int
  m_dAbsTol :: real
  m_dRelTol :: real
  m_fFullyExplicit :: bool
  m_fFullyImplicit :: bool
  m_fFixedStepSize :: bool
  m_fAAFP :: bool
  m_iAAFPAccelVec :: int
  m_iNonlinIters :: int
  m_iLinIters :: int

text \<open>\<^verbatim>\<open>virtual int GetComponentDataInstances() const { return m_iNVectors; }\<close>\<close>

definition ARKode_GetComponentDataInstances :: "'a TimestepSchemeARKode_scheme \<Rightarrow> int" where
  "ARKode_GetComponentDataInstances this = m_iNVectors this"

text \<open>\<^verbatim>\<open>virtual int GetTracerDataInstances() const { return m_iNVectors; }\<close>\<close>

definition ARKode_GetTracerDataInstances :: "'a TimestepSchemeARKode_scheme \<Rightarrow> int" where
  "ARKode_GetTracerDataInstances this = m_iNVectors this"

subsection \<open>The operations of the ARKode adapter, after the specification\<close>

text \<open>
  The header declares \<^verbatim>\<open>Initialize\<close>, \<^verbatim>\<open>SetButcherTable\<close> and \<^verbatim>\<open>Step\<close>; their
  bodies, in the implementation file of the class, are missing from the sources. What
  follows in this subsection is written after the specification of the adapter.
\<close>

text \<open>
  Modelled from the spec: the kinds of failure ("Configuration error", "Convergence
  failure"), each fatal. The bodies that throw them are missing.
\<close>

datatype fatal = ConfigurationError | ConvergenceFailure

text \<open>
  Modelled from the spec: the states of the adapter, "Unconfigured, Initialized,
  Stepping, (Finalized)". The code that moves between them is missing.
\<close>

datatype adapter_state = Unconfigured | Initialized | Stepping | Finalized

text \<open>
  Modelled from the spec: the adapter is the object of the header together with its state
  and, for each of the two sources of a Butcher table ("a library-provided named table or
  a user-supplied custom table"), whether it is active. The members that hold this in the
  code are set in the missing bodies.
\<close>

record ARKodeAdapter = TimestepSchemeARKode +
  state :: adapter_state
  named_table_active :: bool
  custom_table_active :: bool

text \<open>
  Modelled from the spec: what the adapter needs of the external library, which is not
  part of the repository. A table is "selected by an integer ID": \<open>selects_table\<close> says
  which integers select one at all, \<open>knows_table\<close> which named tables the library has.
  \<open>single_step_advance\<close> is "the external solver's single-step-advance operation" for the
  adapter as configured and a target time; \<open>None\<close> is a reported step failure.
\<close>

record ARKodeLibrary =
  selects_table :: "int \<Rightarrow> bool"
  knows_table :: "int \<Rightarrow> bool"
  single_step_advance :: "ARKodeAdapter \<Rightarrow> real \<Rightarrow> real list option"

text \<open>
  Modelled from the spec: \<^verbatim>\<open>Initialize\<close>, whose body is missing. "Configuration error
  (e.g., unsupported Butcher-table ID, instance-count mismatch, mutually-exclusive options
  both set): detected at Initialize time, fatal"; the table is "either a library-known
  table ID or a fully custom table supplied as coefficient matrices -- mutually
  exclusive". Otherwise the adapter is initialized with the table sources it was given.
\<close>

definition ARKode_Initialize :: "ARKodeLibrary \<Rightarrow> ARKodeAdapter \<Rightarrow> fatal + ARKodeAdapter" where
  "ARKode_Initialize lib this =
     (if selects_table lib (m_iARKodeButcherTable this)
         \<and> selects_table lib (m_iSetButcherTable this)
      then Inl ConfigurationError
      else if selects_table lib (m_iARKodeButcherTable this)
         \<and> \<not> knows_table lib (m_iARKodeButcherTable this)
      then Inl ConfigurationError
      else Inr (this\<lparr> state := Initialized,
                  named_table_active := selects_table lib (m_iARKodeButcherTable this),
                  custom_table_active := selects_table lib (m_iSetButcherTable this) \<rparr>))"

text \<open>
  Modelled from the spec: \<^verbatim>\<open>Step\<close> of the adapter, whose body is missing. "Each Step
  call delegates to the external solver's single-step-advance operation with target time =
  current time + Delta t"; "if the external solver reports a step failure [...] the adapter
  treats this as fatal and raises the shared error condition; it performs no additional
  retries of its own".
\<close>

definition ARKode_Step ::
  "ARKodeLibrary \<Rightarrow> ARKodeAdapter \<Rightarrow> bool \<Rightarrow> bool \<Rightarrow> real \<Rightarrow> real \<Rightarrow> fatal + ARKodeAdapter" where
  "ARKode_Step lib this fFirstStep fLastStep time dDeltaT =
     (case single_step_advance lib this (time + dDeltaT) of
        None \<Rightarrow> Inl ConvergenceFailure
      | Some y \<Rightarrow> Inr (this\<lparr> m_Y := y, state := Stepping \<rparr>))"

text \<open>
  Modelled from the spec: the calls the owning Model makes on a scheme, "Initialize()" and
  "Step(fFirstStep, fLastStep, time, deltaT)". The Model's code is missing.
\<close>

datatype scheme_call = Call_Initialize | Call_Step bool bool real real

text \<open>
  Modelled from the spec: one call on the adapter, by the two operations above, whose
  bodies are missing.
\<close>

fun ARKode_call :: "ARKodeLibrary \<Rightarrow> ARKodeAdapter \<Rightarrow> scheme_call \<Rightarrow> fatal + ARKodeAdapter" where
  "ARKode_call lib this Call_Initialize = ARKode_Initialize lib this"
| "ARKode_call lib this (Call_Step fFirstStep fLastStep time dDeltaT) =
     ARKode_Step lib this fFirstStep fLastStep time dDeltaT"

text \<open>
  Modelled from the spec: a run of calls on the adapter, as the missing driver loop of the
  Model makes them. A failure is "fatal (aborts the run)": the run ends with the call that
  failed. The result is the list of the calls that were entered, and the outcome.
\<close>

fun ARKode_run ::
  "ARKodeLibrary \<Rightarrow> ARKodeAdapter \<Rightarrow> scheme_call list
     \<Rightarrow> scheme_call list \<times> (fatal + ARKodeAdapter)" where
  "ARKode_run lib this [] = ([], Inr this)"
| "ARKode_run lib this (c # cs) =
     (case ARKode_call lib this c of
        Inl e \<Rightarrow> ([c], Inl e)
      | Inr this' \<Rightarrow>
          (case ARKode_run lib this' cs of (entered, r) \<Rightarrow> (c # entered, r)))"

text \<open>
  A library for the examples: the table numbers are the integers from 0 on, the library
  has the named tables 0 to 21, and a step of the solver leaves the values as they are.
  And an adapter as constructed: not configured, no table active.
\<close>

definition example_library :: ARKodeLibrary where
  "example_library =
     \<lparr> selects_table = (\<lambda>n. 0 \<le> n),
       knows_table = (\<lambda>n. 0 \<le> n \<and> n \<le> 21),
       single_step_advance = (\<lambda>this target. Some (m_Y this)) \<rparr>"

definition example_adapter :: "int \<Rightarrow> int \<Rightarrow> ARKodeAdapter" where
  "example_adapter iARKodeButcherTable iSetButcherTable =
     \<lparr> m_Y = [1],
       m_iNVectors = 50,
       m_iARKodeButcherTable = iARKodeButcherTable,
       m_iSetButcherTable = iSetButcherTable,
       m_dAbsTol = 1 / 10 ^ 6,
       m_dRelTol = 1 / 10 ^ 4,
       m_fFullyExplicit = False,
       m_fFullyImplicit = False,
       m_fFixedStepSize = False,
       m_fAAFP = False,
       m_iAAFPAccelVec = 0,
       m_iNonlinIters = 3,
       m_iLinIters = 5,
       state = Unconfigured,
       named_table_active = False,
       custom_table_active = False \<rparr>"

subsection \<open>The step of ARS343, after the specification\<close>

text \<open>
  The header declares \<^verbatim>\<open>Step\<close> of \<^verbatim>\<open>TimestepSchemeARS343\<close> and the static
  coefficients; the body and the values, in the implementation file of the class, are
  missing from the sources. What follows in this subsection is written after section 4.2
  of the specification.
\<close>

text \<open>
  Modelled from the spec: the contract of the RHS evaluator (section 6), on state buffers
  ("an ordered collection of scalar field values") and a time: the explicit and the
  implicit tendency of a state, and the implicit solve for a perturbation and a sub-step.
\<close>

record RHSEvaluator =
  EvaluateExplicitRHS :: "real list \<Rightarrow> real \<Rightarrow> real list"
  EvaluateImplicitRHS :: "real list \<Rightarrow> real \<Rightarrow> real list"
  SolveImplicit :: "real list \<Rightarrow> real \<Rightarrow> real \<Rightarrow> real list"

text \<open>
  Modelled from the spec: the coefficients, "fixed compile-time constants". The header
  declares \<^verbatim>\<open>m_dgamma\<close>, \<^verbatim>\<open>m_ddelta\<close>, \<^verbatim>\<open>m_dTimeCf[3]\<close>, \<^verbatim>\<open>m_dExpCf[5][5]\<close> and
  \<^verbatim>\<open>m_dImpCf[5][5]\<close>; their values are missing. The specification names the linear
  combinations that form \<^verbatim>\<open>K1Combo\<close>, \<^verbatim>\<open>K2Combo\<close> and \<^verbatim>\<open>u4fCombo\<close> without giving
  them; each is a function of the buffers computed before it.
\<close>

record ARS343_coefficients =
  m_dgamma :: real
  m_ddelta :: real
  m_dTimeCf :: "nat \<Rightarrow> real"
  m_dExpCf :: "nat \<Rightarrow> nat \<Rightarrow> real"
  m_dImpCf :: "nat \<Rightarrow> nat \<Rightarrow> real"
  form_K1Combo :: "real list \<Rightarrow> real list \<Rightarrow> real list"
  form_K2Combo :: "real list \<Rightarrow> real list \<Rightarrow> real list \<Rightarrow> real list \<Rightarrow> real list"
  form_u4fCombo :: "real list \<Rightarrow> real list list \<Rightarrow> real list"

text \<open>
  Modelled from the spec: \<^verbatim>\<open>Step\<close> of ARS343 (section 4.2, stages 0 to 2 and the final
  stage), whose body is missing. It takes the object and the incoming state and gives the
  object, with its stage buffers overwritten, and the new state. Stage 0: "K0Combo =
  explicit RHS of the incoming state scaled by the table's first explicit sub-diagonal
  coefficient; compute the implicit correction at the table's gamma Delta t sub-step using
  K0Combo as the perturbation, writing to stage-1 input buffer u1f". Stage 1: "evaluate
  the explicit RHS at u1f producing Kh1Combo; form K1Combo as a specified linear
  combination of K0Combo and Kh1Combo; solve the implicit correction at the cumulative
  sub-step implied by the table's 2nd row to produce stage-2 input u2f". Stage 2:
  "evaluate explicit RHS at u2f producing Kh2Combo; form K2Combo; solve implicit
  correction at the 3rd sub-step to produce u3f". Final stage: "evaluate explicit RHS at
  u3f producing Kh3Combo; combine all stage explicit/implicit contributions using the
  table's final weight row into u4fCombo; this is the new state". The sub-steps of the
  stages 1 and 2 are read from \<^verbatim>\<open>m_dTimeCf\<close>, the "coefficients for the time increment"
  of the header.
\<close>

definition ARS343_Step ::
  "RHSEvaluator \<Rightarrow> ARS343_coefficients \<Rightarrow> TimestepSchemeARS343 \<times> real list
     \<Rightarrow> bool \<Rightarrow> bool \<Rightarrow> real \<Rightarrow> real \<Rightarrow> TimestepSchemeARS343 \<times> real list" where
  "ARS343_Step model cf s fFirstStep fLastStep time dDeltaT =
     (case s of (this, u0) \<Rightarrow>
        (let K0Combo = map ((*) (m_dExpCf cf 1 0)) (EvaluateExplicitRHS model u0 time);
             u1f = SolveImplicit model K0Combo (m_dgamma cf * dDeltaT) time;
             Kh1Combo = EvaluateExplicitRHS model u1f time;
             K1Combo = form_K1Combo cf K0Combo Kh1Combo;
             u2f = SolveImplicit model K1Combo (m_dTimeCf cf 1 * dDeltaT) time;
             Kh2Combo = EvaluateExplicitRHS model u2f time;
             K2Combo = form_K2Combo cf K0Combo Kh1Combo K1Combo Kh2Combo;
             u3f = SolveImplicit model K2Combo (m_dTimeCf cf 2 * dDeltaT) time;
             Kh3Combo = EvaluateExplicitRHS model u3f time;
             u4fCombo = form_u4fCombo cf u0
               [K0Combo, Kh1Combo, K1Combo, Kh2Combo, K2Combo, Kh3Combo]
         in (this\<lparr> m_dK0Combo := K0Combo,
                   m_du1fCombo := u1f,
                   m_dK1Combo := K1Combo,
                   m_dKh1Combo := Kh1Combo,
                   m_du2fCombo := u2f,
                   m_dK2Combo := K2Combo,
                   m_dKh2Combo := Kh2Combo,
                   m_du3fCombo := u3f,
                   m_dKh3Combo := Kh3Combo,
                   m_du4fCombo := u4fCombo \<rparr>,
             u4fCombo)))"

section \<open>Theorems\<close>

declare EtaFromRLL_loop.simps [simp del]

subsection \<open>The Newton iteration of EtaFromRLL\<close>

text \<open>
  A loop left by its \<^verbatim>\<open>return\<close> has run at most up to the bound; the value returned
  is the iterate after the last one tested, and the two differ by less than the tolerance.
\<close>

lemma EtaFromRLL_loop_return:
  "EtaFromRLL_loop this phys dZ dLon dLat i dEta g t = Loop_return v g' t' \<Longrightarrow>
   \<exists>n. i + int n < MaxIterations
     \<and> v = ((\<lambda>e. fst (EtaFromRLL_body this phys dZ dLon dLat e)) ^^ Suc n) dEta
     \<and> \<bar>((\<lambda>e. fst (EtaFromRLL_body this phys dZ dLon dLat e)) ^^ n) dEta - v\<bar> < Convergence"
proof (induction this phys dZ dLon dLat i dEta g t rule: EtaFromRLL_loop.induct)
  case (1 this phys dZ dLon dLat i dEta g t)
  define step where "step = (\<lambda>e. fst (EtaFromRLL_body this phys dZ dLon dLat e))"
  have shift: "(step ^^ m) (step x) = (step ^^ Suc m) x" for m x
    by (simp add: funpow_swap1)
  obtain new g1 t1 where body: "EtaFromRLL_body this phys dZ dLon dLat dEta = (new, g1, t1)"
    by (cases "EtaFromRLL_body this phys dZ dLon dLat dEta") auto
  have new: "new = step dEta"
    using body by (simp add: step_def)
  from "1.prems" have lt: "i < MaxIterations"
    by (subst (asm) EtaFromRLL_loop.simps) (auto split: if_splits)
  have "\<exists>n. i + int n < MaxIterations \<and> v = (step ^^ Suc n) dEta
      \<and> \<bar>(step ^^ n) dEta - v\<bar> < Convergence"
  proof (cases "\<bar>dEta - new\<bar> < Convergence")
    case True
    with "1.prems" lt body have "v = new"
      by (subst (asm) EtaFromRLL_loop.simps) simp
    with True lt new have "i + int 0 < MaxIterations \<and> v = (step ^^ Suc 0) dEta
        \<and> \<bar>(step ^^ 0) dEta - v\<bar> < Convergence"
      by simp
    then show ?thesis by blast
  next
    case False
    with "1.prems" lt body
    have rec: "EtaFromRLL_loop this phys dZ dLon dLat (i + 1) new g1 t1 = Loop_return v g' t'"
      by (subst (asm) EtaFromRLL_loop.simps) simp
    from "1.IH" [OF lt body [symmetric] refl False rec]
    obtain n where n: "i + 1 + int n < MaxIterations"
      "v = (step ^^ Suc n) new" "\<bar>(step ^^ n) new - v\<bar> < Convergence"
      unfolding step_def by blast
    have "i + int (Suc n) < MaxIterations"
      using n(1) by simp
    moreover have "v = (step ^^ Suc (Suc n)) dEta"
      using n(2) unfolding new shift .
    moreover have "\<bar>(step ^^ Suc n) dEta - v\<bar> < Convergence"
      using n(3) unfolding new shift .
    ultimately show ?thesis by blast
  qed
  then show ?case unfolding step_def .
qed

text \<open>A loop that runs to its end leaves the counter at the bound.\<close>

lemma EtaFromRLL_loop_end:
  "EtaFromRLL_loop this phys dZ dLon dLat i dEta g t = Loop_end j e g' t' \<Longrightarrow>
   i \<le> MaxIterations \<Longrightarrow> j = MaxIterations"
proof (induction this phys dZ dLon dLat i dEta g t rule: EtaFromRLL_loop.induct)
  case (1 this phys dZ dLon dLat i dEta g t)
  show ?case
  proof (cases "i < MaxIterations")
    case False
    with "1.prems" show ?thesis
      by (subst (asm) EtaFromRLL_loop.simps) simp
  next
    case True
    obtain new g1 t1 where body: "EtaFromRLL_body this phys dZ dLon dLat dEta = (new, g1, t1)"
      by (cases "EtaFromRLL_body this phys dZ dLon dLat dEta") auto
    from "1.prems"(1) True body
    have nc: "\<not> \<bar>dEta - new\<bar> < Convergence"
      by (subst (asm) EtaFromRLL_loop.simps) (auto split: if_splits)
    with "1.prems"(1) True body
    have rec: "EtaFromRLL_loop this phys dZ dLon dLat (i + 1) new g1 t1 = Loop_end j e g' t'"
      by (subst (asm) EtaFromRLL_loop.simps) simp
    from True have "i + 1 \<le> MaxIterations" by simp
    from "1.IH" [OF True body [symmetric] refl nc rec this] show ?thesis .
  qed
qed

text \<open>
  The values that the two reference parameters hold when \<^verbatim>\<open>EtaFromRLL\<close> is called do
  not matter: the first iteration overwrites them.
\<close>

lemma EtaFromRLL_ignores_incoming:
  "EtaFromRLL this phys dZ dLon dLat g0 t0 = EtaFromRLL this phys dZ dLon dLat g1 t1"
proof -
  have "EtaFromRLL_loop this phys dZ dLon dLat 0 InitialEta g0 t0
      = EtaFromRLL_loop this phys dZ dLon dLat 0 InitialEta g1 t1"
    by (subst EtaFromRLL_loop.simps, subst (2) EtaFromRLL_loop.simps)
      (simp add: MaxIterations_def)
  then show ?thesis
    by (simp add: EtaFromRLL_def)
qed

text \<open>The two ways \<^verbatim>\<open>EtaFromRLL\<close> ends.\<close>

lemma EtaFromRLL_outcome:
  "(\<exists>k g t. k < 25
      \<and> EtaFromRLL this phys dZ dLon dLat g0 t0
          = Inr (EtaFromRLL_iterate this phys dZ dLon dLat (Suc k), g, t)
      \<and> \<bar>EtaFromRLL_iterate this phys dZ dLon dLat k
          - EtaFromRLL_iterate this phys dZ dLon dLat (Suc k)\<bar> < Convergence)
   \<or> EtaFromRLL this phys dZ dLon dLat g0 t0
       = Inl (Exception ''Maximum number of iterations exceeded.'')"
proof (cases "EtaFromRLL_loop this phys dZ dLon dLat 0 InitialEta g0 t0")
  case (Loop_return v g t)
  from EtaFromRLL_loop_return [OF this]
  obtain n where n: "0 + int n < MaxIterations"
    "v = EtaFromRLL_iterate this phys dZ dLon dLat (Suc n)"
    "\<bar>EtaFromRLL_iterate this phys dZ dLon dLat n - v\<bar> < Convergence"
    unfolding EtaFromRLL_iterate_def by blast
  from n(1) have "n < 25"
    by (simp add: MaxIterations_def)
  moreover from Loop_return n(2)
  have "EtaFromRLL this phys dZ dLon dLat g0 t0
      = Inr (EtaFromRLL_iterate this phys dZ dLon dLat (Suc n), g, t)"
    by (simp add: EtaFromRLL_def)
  moreover from n(2,3)
  have "\<bar>EtaFromRLL_iterate this phys dZ dLon dLat n
      - EtaFromRLL_iterate this phys dZ dLon dLat (Suc n)\<bar> < Convergence"
    by simp
  ultimately show ?thesis by blast
next
  case (Loop_end j e g t)
  from EtaFromRLL_loop_end [OF this] have "j = MaxIterations"
    by (simp add: MaxIterations_def)
  with Loop_end show ?thesis
    by (simp add: EtaFromRLL_def)
qed

text \<open>
  Conversely: if the test for convergence first holds in iteration \<open>k + 1\<close> of those left,
  the loop returns the iterate of that iteration.
\<close>

lemma EtaFromRLL_loop_first_converged:
  fixes this phys dZ dLon dLat step
  defines "step \<equiv> \<lambda>e. fst (EtaFromRLL_body this phys dZ dLon dLat e)"
  assumes "i + int k < MaxIterations"
    and "\<forall>j<k. \<not> \<bar>(step ^^ j) dEta - (step ^^ Suc j) dEta\<bar> < Convergence"
    and "\<bar>(step ^^ k) dEta - (step ^^ Suc k) dEta\<bar> < Convergence"
  shows "\<exists>g' t'. EtaFromRLL_loop this phys dZ dLon dLat i dEta g t
    = Loop_return ((step ^^ Suc k) dEta) g' t'"
  using assms(2-)
proof (induction k arbitrary: i dEta g t)
  case 0
  obtain new g1 t1 where body: "EtaFromRLL_body this phys dZ dLon dLat dEta = (new, g1, t1)"
    by (cases "EtaFromRLL_body this phys dZ dLon dLat dEta") auto
  then have new: "step dEta = new"
    by (simp add: step_def)
  from "0.prems" new have "i < MaxIterations" "\<bar>dEta - new\<bar> < Convergence"
    by simp_all
  then have "EtaFromRLL_loop this phys dZ dLon dLat i dEta g t = Loop_return new g1 t1"
    by (subst EtaFromRLL_loop.simps) (simp add: body)
  with new show ?case by simp
next
  case (Suc k)
  have shift: "(step ^^ m) (step x) = (step ^^ Suc m) x" for m x
    by (simp add: funpow_swap1)
  obtain new g1 t1 where body: "EtaFromRLL_body this phys dZ dLon dLat dEta = (new, g1, t1)"
    by (cases "EtaFromRLL_body this phys dZ dLon dLat dEta") auto
  then have new: "new = step dEta"
    by (simp add: step_def)
  from Suc.prems(1) have lt: "i < MaxIterations" and lt': "i + 1 + int k < MaxIterations"
    by simp_all
  from Suc.prems(2) have "\<not> \<bar>(step ^^ 0) dEta - (step ^^ Suc 0) dEta\<bar> < Convergence"
    by blast
  with new have nc: "\<not> \<bar>dEta - new\<bar> < Convergence"
    by simp
  have later: "\<forall>j<k. \<not> \<bar>(step ^^ j) new - (step ^^ Suc j) new\<bar> < Convergence"
  proof (intro allI impI)
    fix j assume "j < k"
    then have "Suc j < Suc k"
      by simp
    with Suc.prems(2)
    have "\<not> \<bar>(step ^^ Suc j) dEta - (step ^^ Suc (Suc j)) dEta\<bar> < Convergence"
      by blast
    then show "\<not> \<bar>(step ^^ j) new - (step ^^ Suc j) new\<bar> < Convergence"
      unfolding new shift .
  qed
  have last: "\<bar>(step ^^ k) new - (step ^^ Suc k) new\<bar> < Convergence"
    using Suc.prems(3) unfolding new shift .
  from Suc.IH [OF lt' later last, of g1 t1]
  obtain g' t' where "EtaFromRLL_loop this phys dZ dLon dLat (i + 1) new g1 t1
      = Loop_return ((step ^^ Suc k) new) g' t'"
    by blast
  then have "EtaFromRLL_loop this phys dZ dLon dLat (i + 1) new g1 t1
      = Loop_return ((step ^^ Suc (Suc k)) dEta) g' t'"
    unfolding new shift .
  moreover have "EtaFromRLL_loop this phys dZ dLon dLat i dEta g t
      = EtaFromRLL_loop this phys dZ dLon dLat (i + 1) new g1 t1"
    using lt nc by (subst EtaFromRLL_loop.simps) (simp add: body)
  ultimately show ?case by simp
qed

lemma EtaFromRLL_first_converged:
  assumes "k < 25"
    and "\<forall>j<k. \<not> \<bar>EtaFromRLL_iterate this phys dZ dLon dLat j
        - EtaFromRLL_iterate this phys dZ dLon dLat (Suc j)\<bar> < Convergence"
    and "\<bar>EtaFromRLL_iterate this phys dZ dLon dLat k
        - EtaFromRLL_iterate this phys dZ dLon dLat (Suc k)\<bar> < Convergence"
  shows "\<exists>g t. EtaFromRLL this phys dZ dLon dLat g0 t0
    = Inr (EtaFromRLL_iterate this phys dZ dLon dLat (Suc k), g, t)"
proof -
  from assms(1) have "0 + int k < MaxIterations"
    by (simp add: MaxIterations_def)
  from EtaFromRLL_loop_first_converged
    [OF this assms(2,3) [unfolded EtaFromRLL_iterate_def], of g0 t0]
  obtain g t where "EtaFromRLL_loop this phys dZ dLon dLat 0 InitialEta g0 t0
      = Loop_return (EtaFromRLL_iterate this phys dZ dLon dLat (Suc k)) g t"
    unfolding EtaFromRLL_iterate_def by blast
  then show ?thesis
    by (simp add: EtaFromRLL_def)
qed

text \<open>At the height of \<^verbatim>\<open>InitialEta\<close> the first iteration returns.\<close>

lemma EtaFromRLL_at_level_of_InitialEta:
  assumes "GetG phys \<noteq> 0"
  shows "EtaFromRLL this phys (level_of_InitialEta this phys dLon dLat) dLon dLat g0 t0
    = Inr (InitialEta,
        fst (CalculateGeopotentialTemperature this phys InitialEta dLon dLat),
        snd (CalculateGeopotentialTemperature this phys InitialEta dLon dLat))"
proof -
  obtain g t where c: "CalculateGeopotentialTemperature this phys InitialEta dLon dLat = (g, t)"
    by (cases "CalculateGeopotentialTemperature this phys InitialEta dLon dLat") auto
  have body:
    "EtaFromRLL_body this phys (level_of_InitialEta this phys dLon dLat) dLon dLat InitialEta
      = (InitialEta, g, t)"
    using assms c by (simp add: EtaFromRLL_body_def level_of_InitialEta_def)
  have "EtaFromRLL_loop this phys (level_of_InitialEta this phys dLon dLat) dLon dLat
      0 InitialEta g0 t0 = Loop_return InitialEta g t"
    by (subst EtaFromRLL_loop.simps) (simp add: body MaxIterations_def Convergence_def)
  then show ?thesis
    by (simp add: EtaFromRLL_def c)
qed

lemma EtaFromRLL_iterate_at_level_of_InitialEta:
  assumes "GetG phys \<noteq> 0"
  shows "EtaFromRLL_iterate this phys (level_of_InitialEta this phys dLon dLat) dLon dLat (Suc 0)
    = InitialEta"
  using assms
  by (simp add: EtaFromRLL_iterate_def EtaFromRLL_body_def level_of_InitialEta_def split_beta)

lemma GetG_earth: "GetG earth \<noteq> 0"
  by (simp add: earth_def)

text \<open>
  C2. \<^verbatim>\<open>EtaFromRLL\<close> ends in one of two ways, whatever the constants, the height, the
  longitude, the latitude and the incoming reference parameters are. Either it returns
  after \<open>k + 1\<close> Newton iterations, \<open>k + 1\<close> at most 25, and then the value returned is the
  last iterate, which differs from the one before by less than \<open>1.0e-13\<close>; or it throws
  the exception of the exceeded number of iterations. So no value is returned that did not
  meet the test for convergence within 25 iterations.
\<close>

theorem EtaFromRLL_returns_converged_or_raises:
  "(\<exists>k g t. k < 25
      \<and> EtaFromRLL this phys dZ dLon dLat g0 t0
          = Inr (EtaFromRLL_iterate this phys dZ dLon dLat (Suc k), g, t)
      \<and> \<bar>EtaFromRLL_iterate this phys dZ dLon dLat k
          - EtaFromRLL_iterate this phys dZ dLon dLat (Suc k)\<bar> < 1 / 10 ^ 13)
   \<or> EtaFromRLL this phys dZ dLon dLat g0 t0
       = Inl (Exception ''Maximum number of iterations exceeded.'')"
  using EtaFromRLL_outcome [of this phys dZ dLon dLat g0 t0]
  by (simp only: Convergence_def)

text \<open>
  The first case of C2 occurs: for the constants of the Earth, at the height of
  \<^verbatim>\<open>InitialEta\<close> over the point of longitude 0 and latitude 0, the function returns.
\<close>

theorem EtaFromRLL_returns_converged_witness:
  "\<exists>k g t. k < 25
     \<and> EtaFromRLL jw_test earth (level_of_InitialEta jw_test earth 0 0) 0 0 0 0
         = Inr (EtaFromRLL_iterate jw_test earth (level_of_InitialEta jw_test earth 0 0) 0 0 (Suc k), g, t)
     \<and> \<bar>EtaFromRLL_iterate jw_test earth (level_of_InitialEta jw_test earth 0 0) 0 0 k
         - EtaFromRLL_iterate jw_test earth (level_of_InitialEta jw_test earth 0 0) 0 0 (Suc k)\<bar>
       < 1 / 10 ^ 13"
  using EtaFromRLL_returns_converged_or_raises
      [of jw_test earth "level_of_InitialEta jw_test earth 0 0" 0 0 0 0]
    EtaFromRLL_at_level_of_InitialEta [OF GetG_earth, of jw_test 0 0 0 0]
  by simp

text \<open>
  C3. The specification asks that a value of eta outside of [0, 1] makes
  \<^verbatim>\<open>EtaFromRLL\<close> throw an exception that reports the value. The code differs, and what
  it does is stated here.
  The test of the range in line 360 stands behind the loop, which is left either by the
  \<^verbatim>\<open>return\<close> of line 349 or with the counter at 25, where line 357 throws: for no input
  at all is the exception of the invalid value thrown. And the first iterate that meets
  the test for convergence, in one of the 25 iterations, is returned as it is, whether it
  lies in [0, 1] or not.
\<close>

theorem EtaFromRLL_returns_unchecked:
  "EtaFromRLL this phys dZ dLon dLat g0 t0 \<noteq> Inl (Exception ''Invalid Eta value'')
   \<and> (k < 25
        \<and> (\<forall>j<k. \<not> \<bar>EtaFromRLL_iterate this phys dZ dLon dLat j
              - EtaFromRLL_iterate this phys dZ dLon dLat (Suc j)\<bar> < 1 / 10 ^ 13)
        \<and> \<bar>EtaFromRLL_iterate this phys dZ dLon dLat k
              - EtaFromRLL_iterate this phys dZ dLon dLat (Suc k)\<bar> < 1 / 10 ^ 13
      \<longrightarrow> (\<exists>g t. EtaFromRLL this phys dZ dLon dLat g0 t0
            = Inr (EtaFromRLL_iterate this phys dZ dLon dLat (Suc k), g, t)))"
  using EtaFromRLL_outcome [of this phys dZ dLon dLat g0 t0]
    EtaFromRLL_first_converged [of k this phys dZ dLon dLat g0 t0]
  unfolding Convergence_def by auto

theorem EtaFromRLL_returns_unchecked_witness:
  "\<bar>EtaFromRLL_iterate jw_test earth (level_of_InitialEta jw_test earth 0 0) 0 0 0
      - EtaFromRLL_iterate jw_test earth (level_of_InitialEta jw_test earth 0 0) 0 0 (Suc 0)\<bar>
     < 1 / 10 ^ 13
   \<and> (\<exists>g t. EtaFromRLL jw_test earth (level_of_InitialEta jw_test earth 0 0) 0 0 0 0
          = Inr (EtaFromRLL_iterate jw_test earth (level_of_InitialEta jw_test earth 0 0) 0 0 (Suc 0),
              g, t))"
proof -
  have c: "\<bar>EtaFromRLL_iterate jw_test earth (level_of_InitialEta jw_test earth 0 0) 0 0 0
      - EtaFromRLL_iterate jw_test earth (level_of_InitialEta jw_test earth 0 0) 0 0 (Suc 0)\<bar>
     < 1 / 10 ^ 13"
    unfolding EtaFromRLL_iterate_at_level_of_InitialEta [OF GetG_earth]
    by (simp add: EtaFromRLL_iterate_def)
  with EtaFromRLL_returns_unchecked
    [of jw_test earth "level_of_InitialEta jw_test earth 0 0" 0 0 0 0 0]
  show ?thesis by simp
qed

subsection \<open>The writes of the state evaluation\<close>

lemma EvaluateReferenceState_at_level_of_InitialEta:
  assumes "GetG phys \<noteq> 0"
  shows "\<exists>dRef. EvaluateReferenceState this phys (level_of_InitialEta this phys dLon dLat)
    dLon dLat dState = Inr dRef"
  by (simp add: EvaluateReferenceState_def EtaFromRLL_at_level_of_InitialEta [OF assms] Let_def
      split_beta)

lemma EvaluatePointwiseState_at_level_of_InitialEta:
  assumes "GetG phys \<noteq> 0"
  shows "\<exists>dState'. EvaluatePointwiseState this phys time (level_of_InitialEta this phys dLon dLat)
    dLon dLat dState dTracer = Inr (dState', dTracer)"
proof -
  from EvaluateReferenceState_at_level_of_InitialEta [OF assms]
  obtain dRef where "EvaluateReferenceState this phys (level_of_InitialEta this phys dLon dLat)
    dLon dLat dState = Inr dRef"
    by blast
  then show ?thesis
    by (simp add: EvaluatePointwiseState_def Let_def)
qed

text \<open>
  C8. Where \<^verbatim>\<open>EvaluateReferenceState\<close> returns, the array it leaves differs from the
  one it was given at the offsets 0, 2 and 4 at most: every other cell holds what it held.
\<close>

theorem EvaluateReferenceState_writes_only_0_2_4:
  "EvaluateReferenceState this phys dZ dLon dLat dState = Inr dState' \<Longrightarrow>
   i \<noteq> 0 \<Longrightarrow> i \<noteq> 2 \<Longrightarrow> i \<noteq> 4 \<Longrightarrow> dState' i = dState i"
  by (auto simp: EvaluateReferenceState_def Let_def split: sum.splits prod.splits)

theorem EvaluateReferenceState_writes_only_0_2_4_witness:
  "\<exists>dState'. EvaluateReferenceState jw_test earth (level_of_InitialEta jw_test earth 0 0) 0 0
       (\<lambda>i. 7) = Inr dState'
     \<and> dState' 1 = 7 \<and> dState' 3 = 7 \<and> dState' 5 = 7"
proof -
  from EvaluateReferenceState_at_level_of_InitialEta [OF GetG_earth]
  obtain dState' where r: "EvaluateReferenceState jw_test earth
      (level_of_InitialEta jw_test earth 0 0) 0 0 (\<lambda>i. 7) = Inr dState'"
    by blast
  have "dState' 1 = 7" "dState' 3 = 7" "dState' 5 = 7"
    using EvaluateReferenceState_writes_only_0_2_4 [OF r, of 1]
      EvaluateReferenceState_writes_only_0_2_4 [OF r, of 3]
      EvaluateReferenceState_writes_only_0_2_4 [OF r, of 5]
    by simp_all
  with r show ?thesis by blast
qed

text \<open>
  C9. Where \<^verbatim>\<open>EvaluatePointwiseState\<close> returns, \<^verbatim>\<open>EvaluateReferenceState\<close> has
  returned on the same arguments, and against the reference state it left: the tracer
  array is the one given; if the perturbation is not \<^verbatim>\<open>Exp\<close> the state is the
  reference state; in any case the state is the reference state at every offset but 0;
  and it differs at the offset 0 only if the perturbation is \<^verbatim>\<open>Exp\<close> and the great
  circle distance to the centre of the perturbation, divided by its radius, is below 1.
\<close>

theorem EvaluatePointwiseState_perturbs_entry_0_only:
  "EvaluatePointwiseState this phys time dZ dLon dLat dState dTracer = Inr (dState', dTracer') \<Longrightarrow>
   \<exists>dRef. EvaluateReferenceState this phys dZ dLon dLat dState = Inr dRef
     \<and> dTracer' = dTracer
     \<and> (m_ePerturbationType this \<noteq> PerturbationType_Exp \<longrightarrow> dState' = dRef)
     \<and> (\<forall>i. i \<noteq> 0 \<longrightarrow> dState' i = dRef i)
     \<and> (dState' 0 \<noteq> dRef 0 \<longrightarrow>
          m_ePerturbationType this = PerturbationType_Exp
          \<and> arccos (sin (ParamPertLat this) * sin dLat
               + cos (ParamPertLat this) * cos dLat * cos (dLon - ParamPertLon this))
             / ParamPertR this < 1)"
  by (auto simp: EvaluatePointwiseState_def Let_def split: sum.splits if_splits)

theorem EvaluatePointwiseState_perturbs_entry_0_only_witness:
  "\<exists>dRef dState'.
     EvaluatePointwiseState jw_test earth () (level_of_InitialEta jw_test earth 0 0) 0 0
       (\<lambda>i. 7) (\<lambda>i. 3) = Inr (dState', \<lambda>i. 3)
     \<and> EvaluateReferenceState jw_test earth (level_of_InitialEta jw_test earth 0 0) 0 0
         (\<lambda>i. 7) = Inr dRef
     \<and> dState' 1 = dRef 1 \<and> dState' 2 = dRef 2 \<and> dState' 4 = dRef 4"
proof -
  from EvaluatePointwiseState_at_level_of_InitialEta
    [OF GetG_earth, of jw_test "()" 0 0 "\<lambda>i. 7" "\<lambda>i. 3"]
  obtain dState' where r: "EvaluatePointwiseState jw_test earth ()
      (level_of_InitialEta jw_test earth 0 0) 0 0 (\<lambda>i. 7) (\<lambda>i. 3) = Inr (dState', \<lambda>i. 3)"
    by blast
  from EvaluatePointwiseState_perturbs_entry_0_only [OF r]
  obtain dRef where "EvaluateReferenceState jw_test earth
      (level_of_InitialEta jw_test earth 0 0) 0 0 (\<lambda>i. 7) = Inr dRef"
    and "\<forall>i. i \<noteq> 0 \<longrightarrow> dState' i = dRef i"
    by blast
  with r show ?thesis by auto
qed

subsection \<open>The topography\<close>

text \<open>
  C10. The height of the surface does not depend on the longitude: for the same test
  case, constants and latitude, any two longitudes give the same \<^verbatim>\<open>EvaluateTopography\<close>.
\<close>

theorem EvaluateTopography_independent_of_longitude:
  "EvaluateTopography this phys dLon dLat = EvaluateTopography this phys dLon' dLat"
  by (simp add: EvaluateTopography_def)

subsection \<open>The adapter: table selection\<close>

lemma ARKode_call_tables:
  "ARKode_call lib this c = Inr this' \<Longrightarrow>
   \<not> (named_table_active this \<and> custom_table_active this) \<Longrightarrow>
   \<not> (named_table_active this' \<and> custom_table_active this')"
  by (cases c) (auto simp: ARKode_Initialize_def ARKode_Step_def split: if_splits option.splits)

lemma ARKode_call_NVectors:
  "ARKode_call lib this c = Inr this' \<Longrightarrow> m_iNVectors this' = m_iNVectors this"
  by (cases c) (auto simp: ARKode_Initialize_def ARKode_Step_def split: if_splits option.splits)

lemma ARKode_run_tables:
  "snd (ARKode_run lib this cs) = Inr this' \<Longrightarrow>
   \<not> (named_table_active this \<and> custom_table_active this) \<Longrightarrow>
   \<not> (named_table_active this' \<and> custom_table_active this')"
proof (induction cs arbitrary: this)
  case Nil
  then show ?case by simp
next
  case (Cons c cs)
  show ?case
  proof (cases "ARKode_call lib this c")
    case (Inl e)
    with Cons.prems(1) show ?thesis by simp
  next
    case (Inr mid)
    with Cons.prems(1) have "snd (ARKode_run lib mid cs) = Inr this'"
      by (simp add: split_beta)
    from Cons.IH [OF this ARKode_call_tables [OF Inr Cons.prems(2)]]
    show ?thesis .
  qed
qed

lemma ARKode_run_NVectors:
  "snd (ARKode_run lib this cs) = Inr this' \<Longrightarrow> m_iNVectors this' = m_iNVectors this"
proof (induction cs arbitrary: this)
  case Nil
  then show ?case by simp
next
  case (Cons c cs)
  show ?case
  proof (cases "ARKode_call lib this c")
    case (Inl e)
    with Cons.prems show ?thesis by simp
  next
    case (Inr mid)
    with Cons.prems have "snd (ARKode_run lib mid cs) = Inr this'"
      by (simp add: split_beta)
    from Cons.IH [OF this] ARKode_call_NVectors [OF Inr]
    show ?thesis by simp
  qed
qed

text \<open>
  C4. With a named table selected that the library does not know, \<^verbatim>\<open>Initialize\<close> of the
  adapter fails with a configuration error, and a run that starts with \<^verbatim>\<open>Initialize\<close>
  ends there: \<^verbatim>\<open>Initialize\<close> is the only call entered, whatever calls of \<^verbatim>\<open>Step\<close>
  were to follow.
\<close>

theorem ARKode_unknown_table_fails_at_Initialize:
  "selects_table lib (m_iARKodeButcherTable this) \<Longrightarrow>
   \<not> knows_table lib (m_iARKodeButcherTable this) \<Longrightarrow>
   ARKode_Initialize lib this = Inl ConfigurationError
   \<and> ARKode_run lib this (Call_Initialize # calls) = ([Call_Initialize], Inl ConfigurationError)"
  by (simp add: ARKode_Initialize_def)

theorem ARKode_unknown_table_fails_at_Initialize_witness:
  "selects_table example_library 99 \<and> \<not> knows_table example_library 99
   \<and> ARKode_Initialize example_library (example_adapter 99 (- 1)) = Inl ConfigurationError
   \<and> ARKode_run example_library (example_adapter 99 (- 1))
        [Call_Initialize, Call_Step True False 0 200, Call_Step False True 200 200]
      = ([Call_Initialize], Inl ConfigurationError)"
  using ARKode_unknown_table_fails_at_Initialize
    [of example_library "example_adapter 99 (- 1)"
      "[Call_Step True False 0 200, Call_Step False True 200 200]"]
  by (simp add: example_library_def example_adapter_def)

text \<open>
  C5. With both a named table and a custom table selected, \<^verbatim>\<open>Initialize\<close> of the adapter
  fails with a configuration error. And at most one of the two table sources is ever
  active: an adapter on which not both are active is, after any run that does not fail,
  one on which not both are active.
\<close>

theorem ARKode_table_sources_exclusive:
  "(selects_table lib (m_iARKodeButcherTable this) \<and> selects_table lib (m_iSetButcherTable this)
      \<longrightarrow> ARKode_Initialize lib this = Inl ConfigurationError)
   \<and> (\<not> (named_table_active this \<and> custom_table_active this)
        \<and> snd (ARKode_run lib this calls) = Inr this'
      \<longrightarrow> \<not> (named_table_active this' \<and> custom_table_active this'))"
  using ARKode_run_tables [of lib this calls this']
  by (auto simp: ARKode_Initialize_def)

theorem ARKode_table_sources_exclusive_witness:
  "selects_table example_library 3 \<and> selects_table example_library 4
   \<and> ARKode_Initialize example_library (example_adapter 3 4) = Inl ConfigurationError
   \<and> (\<exists>this'. snd (ARKode_run example_library (example_adapter 3 (- 1))
          [Call_Initialize, Call_Step True True 0 200]) = Inr this'
        \<and> named_table_active this' \<and> \<not> custom_table_active this')"
proof -
  have both: "selects_table example_library (m_iARKodeButcherTable (example_adapter 3 4))
      \<and> selects_table example_library (m_iSetButcherTable (example_adapter 3 4))"
    by (simp add: example_library_def example_adapter_def)
  obtain this' where r: "snd (ARKode_run example_library (example_adapter 3 (- 1))
      [Call_Initialize, Call_Step True True 0 200]) = Inr this'"
    and n: "named_table_active this'"
    by (simp add: ARKode_Initialize_def ARKode_Step_def example_library_def example_adapter_def)
  have start: "\<not> (named_table_active (example_adapter 3 (- 1))
      \<and> custom_table_active (example_adapter 3 (- 1)))"
    by (simp add: example_adapter_def)
  from ARKode_table_sources_exclusive
    [of example_library "example_adapter 3 4"] both
  have "ARKode_Initialize example_library (example_adapter 3 4) = Inl ConfigurationError"
    by blast
  moreover from ARKode_table_sources_exclusive
    [of example_library "example_adapter 3 (- 1)"
      "[Call_Initialize, Call_Step True True 0 200]" this'] start r n
  have "\<not> custom_table_active this'"
    by blast
  ultimately show ?thesis
    using r n by (auto simp: example_library_def)
qed

subsection \<open>The step of ARS343\<close>

text \<open>
  C6. Two calls of \<^verbatim>\<open>Step\<close> of ARS343 with the same time, the same step size and the
  same object and incoming state give the same object and new state, whatever the flags
  \<^verbatim>\<open>fFirstStep\<close> and \<^verbatim>\<open>fLastStep\<close> of the one and of the other are.
\<close>

theorem ARS343_Step_ignores_flags:
  "ARS343_Step model cf s fFirstStep fLastStep time dDeltaT
     = ARS343_Step model cf s fFirstStep' fLastStep' time dDeltaT"
  by (simp add: ARS343_Step_def)

subsection \<open>The instance counts\<close>

text \<open>
  C1. For the ARS343 scheme, the number of component data instances is 10 and the number
  of tracer data instances is 10, for every object of the class, whatever its buffers hold.
\<close>

theorem ARS343_instances_are_10:
  "ARS343_GetComponentDataInstances this = 10 \<and> ARS343_GetTracerDataInstances this = 10"
  by (simp add: ARS343_GetComponentDataInstances_def ARS343_GetTracerDataInstances_def)

text \<open>
  C7. The two instance counts of a scheme do not change over its lifetime. For ARS343
  they are the same for any two states of the object. For the ARKode adapter they are,
  after any run of calls of \<^verbatim>\<open>Initialize\<close> and \<^verbatim>\<open>Step\<close> that does not fail, what they
  were before it.
\<close>

theorem instance_counts_stable:
  "ARS343_GetComponentDataInstances s' = ARS343_GetComponentDataInstances s
   \<and> ARS343_GetTracerDataInstances s' = ARS343_GetTracerDataInstances s
   \<and> (snd (ARKode_run lib this calls) = Inr this'
      \<longrightarrow> ARKode_GetComponentDataInstances this' = ARKode_GetComponentDataInstances this
        \<and> ARKode_GetTracerDataInstances this' = ARKode_GetTracerDataInstances this)"
  using ARKode_run_NVectors [of lib this calls this']
  by (simp add: ARS343_GetComponentDataInstances_def ARS343_GetTracerDataInstances_def
      ARKode_GetComponentDataInstances_def ARKode_GetTracerDataInstances_def)

theorem instance_counts_stable_witness:
  "\<exists>this'. snd (ARKode_run example_library (example_adapter 3 (- 1))
       [Call_Initialize, Call_Step True False 0 200, Call_Step False True 200 200]) = Inr this'
     \<and> ARKode_GetComponentDataInstances this' = 50
     \<and> ARKode_GetTracerDataInstances this' = 50
     \<and> ARKode_GetComponentDataInstances (example_adapter 3 (- 1)) = 50"
proof -
  obtain this' where r: "snd (ARKode_run example_library (example_adapter 3 (- 1))
      [Call_Initialize, Call_Step True False 0 200, Call_Step False True 200 200]) = Inr this'"
    by (simp add: ARKode_Initialize_def ARKode_Step_def example_library_def example_adapter_def)
  have "ARKode_GetComponentDataInstances (example_adapter 3 (- 1)) = 50"
    "ARKode_GetTracerDataInstances (example_adapter 3 (- 1)) = 50"
    by (simp_all add: ARKode_GetComponentDataInstances_def ARKode_GetTracerDataInstances_def
        example_adapter_def)
  with instance_counts_stable
    [of _ _ example_library "example_adapter 3 (- 1)"
      "[Call_Initialize, Call_Step True False 0 200, Call_Step False True 200 200]" this'] r
  show ?thesis by auto
qed

end
